theory Spec2Isabelle
  imports Main
begin

section \<open>JavaScript values used by the engine\<close>

text \<open>
  Numbers. The engine only subtracts a parsed timestamp from \<open>Date.now()\<close> and compares
  the difference with the two configured thresholds. Clock readings are integral
  milliseconds, so a number is an integer, one of the two infinities, or NaN.
\<close>

datatype jsnum = NaN | Fin int | PosInf | NegInf

text \<open>JavaScript \<open>a - b\<close>.\<close>

fun js_sub :: "jsnum \<Rightarrow> jsnum \<Rightarrow> jsnum" where
  "js_sub NaN b = NaN"
| "js_sub a NaN = NaN"
| "js_sub (Fin a) (Fin b) = Fin (a - b)"
| "js_sub (Fin a) PosInf = NegInf"
| "js_sub (Fin a) NegInf = PosInf"
| "js_sub PosInf PosInf = NaN"
| "js_sub PosInf b = PosInf"
| "js_sub NegInf NegInf = NaN"
| "js_sub NegInf b = NegInf"

text \<open>JavaScript \<open>a > b\<close>: false as soon as one side is NaN.\<close>

fun js_gt :: "jsnum \<Rightarrow> jsnum \<Rightarrow> bool" where
  "js_gt NaN b = False"
| "js_gt a NaN = False"
| "js_gt (Fin a) (Fin b) = (a > b)"
| "js_gt (Fin a) PosInf = False"
| "js_gt (Fin a) NegInf = True"
| "js_gt PosInf PosInf = False"
| "js_gt PosInf b = True"
| "js_gt NegInf b = False"

text \<open>JavaScript \<open>a >= b\<close>: false as soon as one side is NaN.\<close>

fun js_ge :: "jsnum \<Rightarrow> jsnum \<Rightarrow> bool" where
  "js_ge NaN b = False"
| "js_ge a NaN = False"
| "js_ge (Fin a) (Fin b) = (a \<ge> b)"
| "js_ge (Fin a) PosInf = False"
| "js_ge (Fin a) NegInf = True"
| "js_ge PosInf b = True"
| "js_ge NegInf NegInf = True"
| "js_ge NegInf b = False"

text \<open>
  Values: what the producer \<open>fn\<close> returns, what \<open>deserialize\<close> returns, and what is
  thrown. \<open>JObj\<close> stands for any object (always truthy), named by a label.
\<close>

datatype jsval = JNull | JUndefined | JBool bool | JNum jsnum | JStr string | JObj string

text \<open>The truthiness test of \<open>if (cachedValue)\<close>.\<close>

fun truthy :: "jsval \<Rightarrow> bool" where
  "truthy JNull = False"
| "truthy JUndefined = False"
| "truthy (JBool b) = b"
| "truthy (JNum n) = (n \<noteq> NaN \<and> n \<noteq> Fin 0)"
| "truthy (JStr s) = (s \<noteq> [])"
| "truthy (JObj l) = True"

text \<open>
  What \<open>storage.getItem\<close> answers: a string, or \<open>null\<close> (as \<open>localStorage\<close> does for a
  missing key), or \<open>undefined\<close> (as a store backed by a plain object or a Map does).
\<close>

datatype raw = RNull | RUndefined | RStr string

text \<open>
  \<open>Number(cachedTime)\<close>. \<open>Number(null)\<close> is \<open>0\<close> and \<open>Number(undefined)\<close> is NaN; the
  conversion of a string is the runtime's StringToNumber, taken as the parameter \<open>num\<close>.
\<close>

fun Number_js :: "(string \<Rightarrow> jsnum) \<Rightarrow> raw \<Rightarrow> jsnum" where
  "Number_js num RNull = Fin 0"
| "Number_js num RUndefined = NaN"
| "Number_js num (RStr s) = num s"

text \<open>\<open>Date.now().toString()\<close>: the decimal numeral of an integer.\<close>

definition digit_char :: "nat \<Rightarrow> char" where
  "digit_char d =
     (if d = 0 then CHR ''0'' else if d = 1 then CHR ''1'' else if d = 2 then CHR ''2''
      else if d = 3 then CHR ''3'' else if d = 4 then CHR ''4'' else if d = 5 then CHR ''5''
      else if d = 6 then CHR ''6'' else if d = 7 then CHR ''7'' else if d = 8 then CHR ''8''
      else CHR ''9'')"

fun digits :: "nat \<Rightarrow> string" where
  "digits n = (if n < 10 then [digit_char n] else digits (n div 10) @ [digit_char (n mod 10)])"

declare digits.simps [simp del]

definition toString :: "int \<Rightarrow> string" where
  "toString i = (if i < 0 then CHR ''-'' # digits (nat (- i)) else digits (nat i))"

section \<open>Configuration, events and the world of one call\<close>

text \<open>
  The result of \<open>parseConfig(config)\<close>: the storage with its two operations, the two
  thresholds and the codec. \<open>setItem cfg k v s\<close> is the storage once the write has
  landed. \<open>deferred\<close> tells whether \<open>setItem\<close> returns a promise that is still pending
  when the call returns (a networked store) or writes during the call.
  Storage and codec are assumed not to throw.
\<close>

record 's config =
  getItem :: "'s \<Rightarrow> string \<Rightarrow> raw"
  setItem :: "string \<Rightarrow> string \<Rightarrow> 's \<Rightarrow> 's"
  deferred :: bool
  minTimeToStale :: jsnum
  maxTimeToLive :: jsnum
  serialize :: "jsval \<Rightarrow> string"
  deserialize :: "raw \<Rightarrow> jsval"

text \<open>
  \<open>EmitterEvents\<close>, each with the payload fields that differ between events. Every
  payload also carries \<open>cacheKey\<close> (and \<open>fn\<close>, except for cacheExpired and cacheHit),
  the arguments of the call. \<open>CacheExpired\<close> carries \<open>cachedAge\<close>, \<open>cachedTime\<close>,
  \<open>cachedValue\<close> and \<open>maxTimeToLive\<close>.
\<close>

datatype event =
    Invoke
  | CacheExpired jsnum raw jsval jsnum
  | CacheHit jsval
  | CacheMiss
  | Revalidate
  | RevalidateFailed jsval

text \<open>What one call does to the outside, in order.\<close>

datatype action = Emit event | CallFn | GetItem string | SetItem string string

text \<open>
  Modelled from the spec: the module \<open>./event-emitter\<close> is not part of the sources.
  \<open>emitter.emit\<close> is synchronous and a failing listener does not propagate to the
  emitter, so an emission is an entry of the trace. \<open>inflight\<close> holds the writes whose
  promise is still pending.
\<close>

record 's world =
  store :: 's
  inflight :: "(string \<times> string) list"
  trace :: "action list"

definition emit :: "event \<Rightarrow> 's world \<Rightarrow> 's world" where
  "emit e w = w\<lparr>trace := trace w @ [Emit e]\<rparr>"

text \<open>A call \<open>storage.setItem(k, v)\<close> whose promise is dropped.\<close>

definition call_setItem :: "'s config \<Rightarrow> string \<Rightarrow> string \<Rightarrow> 's world \<Rightarrow> 's world" where
  "call_setItem cfg k v w =
     (if deferred cfg
      then w\<lparr>inflight := inflight w @ [(k, v)], trace := trace w @ [SetItem k v]\<rparr>
      else w\<lparr>store := setItem cfg k v (store w), trace := trace w @ [SetItem k v]\<rparr>)"

text \<open>The pending writes land, in the order they were issued.\<close>

definition land :: "'s config \<Rightarrow> 's world \<Rightarrow> 's world" where
  "land cfg w =
     w\<lparr>store := foldl (\<lambda>s (k, v). setItem cfg k v s) (store w) (inflight w), inflight := []\<rparr>"

text \<open>
  The arguments of one call and what the environment answers during it: \<open>cacheKey\<close> is a
  string or a function returning one; \<open>fn\<close> is the producer, given by what calling it does;
  \<open>now_read\<close> is \<open>Date.now()\<close> after the reads, \<open>now_write\<close> is \<open>Date.now()\<close> at the write
  of the timestamp.
\<close>

datatype cache_key = KeyString string | KeyFunction string

datatype fn_outcome = Resolves jsval | Rejects jsval | Throws jsval

record call =
  cacheKey :: cache_key
  fn :: fn_outcome
  now_read :: int
  now_write :: int

datatype promise = Fulfilled jsval | Rejected jsval

text \<open>\<open>isFunction(cacheKey) ? String(cacheKey()) : String(cacheKey)\<close>\<close>

fun resolve_key :: "cache_key \<Rightarrow> string" where
  "resolve_key (KeyFunction k) = k"
| "resolve_key (KeyString k) = k"

definition timeKey :: "string \<Rightarrow> string" where
  "timeKey key = key @ ''_time''"

section \<open>The engine\<close>

text \<open>
  \<open>revalidate()\<close> is an async function with one suspension point, \<open>await fn()\<close>.
  \<open>revalidate_start\<close> is what runs during the call \<open>revalidate()\<close>: the event, the call of
  the producer and, when the producer throws, the \<open>catch\<close> block; it answers the settled
  promise, or \<open>None\<close> when the function is suspended at the \<open>await\<close>.
  \<open>revalidate_resume\<close> is what runs when the awaited promise has settled.
\<close>

definition revalidate_start :: "call \<Rightarrow> 's world \<Rightarrow> promise option \<times> 's world" where
  "revalidate_start c w =
     (let w1 = emit Revalidate w;
          w2 = w1\<lparr>trace := trace w1 @ [CallFn]\<rparr>
      in case fn c of
           Throws error \<Rightarrow> (Some (Rejected error), emit (RevalidateFailed error) w2)
         | Resolves result \<Rightarrow> (None, w2)
         | Rejects error \<Rightarrow> (None, w2))"

definition revalidate_resume :: "'s config \<Rightarrow> call \<Rightarrow> string \<Rightarrow> 's world \<Rightarrow> promise \<times> 's world" where
  "revalidate_resume cfg c key w =
     (case fn c of
        Resolves result \<Rightarrow>
          (Fulfilled result,
           call_setItem cfg (timeKey key) (toString (now_write c))
             (call_setItem cfg key (serialize cfg result) w))
      | Rejects error \<Rightarrow> (Rejected error, emit (RevalidateFailed error) w)
      | Throws error \<Rightarrow> (Rejected error, w))"

text \<open>
  The last case is never reached from \<open>revalidate\<close> or \<open>staleWhileRevalidate\<close>: a
  producer that throws has settled the promise in \<open>revalidate_start\<close>.
\<close>

text \<open>\<open>revalidate()\<close> run until its promise settles, as \<open>return revalidate()\<close> waits for it.\<close>

definition revalidate :: "'s config \<Rightarrow> call \<Rightarrow> string \<Rightarrow> 's world \<Rightarrow> promise \<times> 's world" where
  "revalidate cfg c key w =
     (case revalidate_start c w of
        (Some p, w') \<Rightarrow> (p, w')
      | (None, w') \<Rightarrow> revalidate_resume cfg c key w')"

text \<open>
  What one call of \<open>staleWhileRevalidate\<close> gives: how its promise settles, the world at
  that moment, the promise of a \<open>revalidate()\<close> that was started and not awaited (with
  whether a rejection handler is attached to it), and the world once that task has
  finished and the pending writes have landed.
\<close>

record 's outcome =
  result :: promise
  at_settle :: "'s world"
  detached :: "(promise \<times> bool) option"
  final :: "'s world"

definition cachedTime_of :: "'s config \<Rightarrow> call \<Rightarrow> 's \<Rightarrow> raw" where
  "cachedTime_of cfg c s = getItem cfg s (timeKey (resolve_key (cacheKey c)))"

definition cachedValue_of :: "'s config \<Rightarrow> call \<Rightarrow> 's \<Rightarrow> jsval" where
  "cachedValue_of cfg c s = deserialize cfg (getItem cfg s (resolve_key (cacheKey c)))"

definition cachedAge_of :: "(string \<Rightarrow> jsnum) \<Rightarrow> 's config \<Rightarrow> call \<Rightarrow> 's \<Rightarrow> jsnum" where
  "cachedAge_of num cfg c s = js_sub (Fin (now_read c)) (Number_js num (cachedTime_of cfg c s))"

definition staleWhileRevalidate ::
  "(string \<Rightarrow> jsnum) \<Rightarrow> 's config \<Rightarrow> call \<Rightarrow> 's \<Rightarrow> 's outcome" where
  "staleWhileRevalidate num cfg c s =
     (let w0 = emit Invoke \<lparr>store = s, inflight = [], trace = []\<rparr>;
          key = resolve_key (cacheKey c);
          w1 = w0\<lparr>trace := trace w0 @ [GetItem key, GetItem (timeKey key)]\<rparr>;
          cachedTime = cachedTime_of cfg c s;
          cachedValue = cachedValue_of cfg c s;
          cachedAge = cachedAge_of num cfg c s;
          expired = js_gt cachedAge (maxTimeToLive cfg);
          w2 = (if expired
                then emit (CacheExpired cachedAge cachedTime cachedValue (maxTimeToLive cfg)) w1
                else w1);
          cachedValue = (if expired then JNull else cachedValue)
      in if truthy cachedValue then
           (let w3 = emit (CacheHit cachedValue) w2
            in if js_ge cachedAge (minTimeToStale cfg) then
                 (case revalidate_start c w3 of
                    (Some p, w4) \<Rightarrow>
                      \<lparr>result = Fulfilled cachedValue, at_settle = w4,
                       detached = Some (p, True), final = land cfg w4\<rparr>
                  | (None, w4) \<Rightarrow>
                      (let (p, w5) = revalidate_resume cfg c key w4
                       in \<lparr>result = Fulfilled cachedValue, at_settle = w4,
                           detached = Some (p, True), final = land cfg w5\<rparr>))
               else \<lparr>result = Fulfilled cachedValue, at_settle = w3,
                     detached = None, final = land cfg w3\<rparr>)
         else
           (let w3 = emit CacheMiss w2;
                (p, w4) = revalidate cfg c key w3
            in \<lparr>result = p, at_settle = w4, detached = None, final = land cfg w4\<rparr>))"

text \<open>A rejection nobody handles: a detached promise that rejects with no handler attached.\<close>

definition unhandled_rejection :: "'s outcome \<Rightarrow> jsval option" where
  "unhandled_rejection out =
     (case detached out of
        Some (Rejected e, False) \<Rightarrow> Some e
      | _ \<Rightarrow> None)"

text \<open>Calls made one after the other, each on the storage the previous one left.\<close>

fun get_all :: "(string \<Rightarrow> jsnum) \<Rightarrow> 's config \<Rightarrow> call list \<Rightarrow> 's \<Rightarrow> 's outcome list" where
  "get_all num cfg [] s = []"
| "get_all num cfg (c # cs) s =
     (let out = staleWhileRevalidate num cfg c s
      in out # get_all num cfg cs (store (final out)))"

fun store_after :: "'s \<Rightarrow> 's outcome list \<Rightarrow> 's" where
  "store_after s [] = s"
| "store_after s (out # outs) = store_after (store (final out)) outs"

text \<open>Reading a trace: the events, the writes, and how often the producer was called.\<close>

fun events :: "action list \<Rightarrow> event list" where
  "events [] = []"
| "events (Emit e # as) = e # events as"
| "events (a # as) = events as"

fun writes :: "action list \<Rightarrow> (string \<times> string) list" where
  "writes [] = []"
| "writes (SetItem k v # as) = (k, v) # writes as"
| "writes (a # as) = writes as"

fun fn_calls :: "action list \<Rightarrow> nat" where
  "fn_calls [] = 0"
| "fn_calls (CallFn # as) = Suc (fn_calls as)"
| "fn_calls (a # as) = fn_calls as"

fun is_expired_event :: "event \<Rightarrow> bool" where
  "is_expired_event (CacheExpired a t v m) = True"
| "is_expired_event e = False"

section \<open>A concrete host\<close>

text \<open>
  A storage kept as an association list that answers \<open>null\<close> for a missing key, a codec
  that stores strings as they are, and a StringToNumber that agrees with \<open>Number\<close> on
  the empty string, on unsigned decimal numerals below \<open>2^53\<close> and on \<open>''abc''\<close>, the only
  strings it is applied to below. It is not \<open>Number\<close> elsewhere: blank strings,
  \<open>Infinity\<close>, signed, fractional, exponent and hexadecimal numerals are numbers for
  \<open>Number\<close> and NaN here.
\<close>

definition is_digit :: "char \<Rightarrow> bool" where
  "is_digit ch = ((48::nat) \<le> of_char ch \<and> of_char ch \<le> (57::nat))"

definition decimalNumber :: "string \<Rightarrow> jsnum" where
  "decimalNumber s =
     (if s = [] then Fin 0
      else if list_all is_digit s
      then Fin (int (foldl (\<lambda>n ch. 10 * n + (of_char ch - 48)) (0::nat) s))
      else NaN)"

definition listStorage :: "bool \<Rightarrow> jsnum \<Rightarrow> jsnum \<Rightarrow> (string \<times> string) list config" where
  "listStorage d lo hi =
     \<lparr>getItem = (\<lambda>s k. case map_of s k of None \<Rightarrow> RNull | Some v \<Rightarrow> RStr v),
      setItem = (\<lambda>k v s. (k, v) # s),
      deferred = d,
      minTimeToStale = lo,
      maxTimeToLive = hi,
      serialize = (\<lambda>v. case v of JStr x \<Rightarrow> x | _ \<Rightarrow> []),
      deserialize = (\<lambda>r. case r of RStr x \<Rightarrow> JStr x | _ \<Rightarrow> JNull)\<rparr>"

definition deferredStore :: "(string \<times> string) list config" where
  "deferredStore = listStorage True (Fin 1000) (Fin 5000)"

definition directStore :: "(string \<times> string) list config" where
  "directStore = listStorage False (Fin 1000) (Fin 5000)"

text \<open>The same storage with no limit on the age: \<open>maxTimeToLive\<close> is \<open>Infinity\<close>.\<close>

definition unboundedStore :: "(string \<times> string) list config" where
  "unboundedStore = listStorage False (Fin 1000) PosInf"

text \<open>A call with the key \<open>''k''\<close> at clock reading \<open>t\<close>; the timestamp is written 1 ms later.\<close>

definition call_at :: "fn_outcome \<Rightarrow> int \<Rightarrow> call" where
  "call_at f t = \<lparr>cacheKey = KeyString ''k'', fn = f, now_read = t, now_write = t + 1\<rparr>"

section \<open>Vocabulary of the statements\<close>

text \<open>How a promise that waits for the producer settles.\<close>

definition settles :: "fn_outcome \<Rightarrow> promise" where
  "settles f =
     (case f of Resolves r \<Rightarrow> Fulfilled r | Rejects e \<Rightarrow> Rejected e | Throws e \<Rightarrow> Rejected e)"

text \<open>The events of the \<open>catch\<close> block of \<open>revalidate\<close>.\<close>

definition failure_events :: "fn_outcome \<Rightarrow> event list" where
  "failure_events f =
     (case f of
        Resolves r \<Rightarrow> []
      | Rejects e \<Rightarrow> [RevalidateFailed e]
      | Throws e \<Rightarrow> [RevalidateFailed e])"

text \<open>No \<open>setItem\<close> is called before the producer has been called.\<close>

fun no_write_before_call :: "action list \<Rightarrow> bool" where
  "no_write_before_call [] = True"
| "no_write_before_call (CallFn # as) = True"
| "no_write_before_call (SetItem k v # as) = False"
| "no_write_before_call (a # as) = no_write_before_call as"

section \<open>Basic facts\<close>

lemma events_append: "events (xs @ ys) = events xs @ events ys"
  by (induction xs rule: events.induct) simp_all

lemma writes_append: "writes (xs @ ys) = writes xs @ writes ys"
  by (induction xs rule: writes.induct) simp_all

lemma fn_calls_append: "fn_calls (xs @ ys) = fn_calls xs + fn_calls ys"
  by (induction xs rule: fn_calls.induct) simp_all

lemma js_ge_not_gt: "js_ge b a \<Longrightarrow> \<not> js_gt a b"
  by (induction a b rule: js_gt.induct) simp_all

lemma js_gt_not_ge: "js_gt b a \<Longrightarrow> \<not> js_ge a b"
  by (induction a b rule: js_ge.induct) simp_all

lemma js_gt_ge_trans: "js_gt m a \<Longrightarrow> js_ge x m \<Longrightarrow> \<not> js_gt a x"
  by (cases a; cases m; cases x) simp_all

lemma js_sub_NaN: "js_sub (Fin n) x = NaN \<longleftrightarrow> x = NaN"
  by (cases x) simp_all

lemma digits_small: "n < 10 \<Longrightarrow> digits n = [digit_char n]"
  by (simp add: digits.simps)

lemma digits_large: "\<not> n < 10 \<Longrightarrow> digits n = digits (n div 10) @ [digit_char (n mod 10)]"
  by (subst digits.simps) simp

lemma toString_example: "toString 1000001 = ''1000001''"
  by (simp add: toString_def digits_small digits_large digit_char_def)

lemmas swr_defs = staleWhileRevalidate_def revalidate_def revalidate_start_def
  revalidate_resume_def emit_def call_setItem_def land_def Let_def

lemmas host_defs = deferredStore_def directStore_def listStorage_def call_at_def
  cachedAge_of_def cachedTime_of_def cachedValue_of_def timeKey_def decimalNumber_def
  is_digit_def

text \<open>
  The fresh path in one equation: a truthy value younger than \<open>minTimeToStale\<close>, with
  \<open>minTimeToStale \<le> maxTimeToLive\<close>, is answered from the cache and nothing else happens.
\<close>

lemma fresh_path:
  assumes "truthy (cachedValue_of cfg c s)"
      and "js_gt (minTimeToStale cfg) (cachedAge_of num cfg c s)"
      and "js_ge (maxTimeToLive cfg) (minTimeToStale cfg)"
  shows "staleWhileRevalidate num cfg c s =
     \<lparr>result = Fulfilled (cachedValue_of cfg c s),
      at_settle = \<lparr>store = s, inflight = [], trace =
         [Emit Invoke, GetItem (resolve_key (cacheKey c)),
          GetItem (timeKey (resolve_key (cacheKey c))),
          Emit (CacheHit (cachedValue_of cfg c s))]\<rparr>,
      detached = None,
      final = \<lparr>store = s, inflight = [], trace =
         [Emit Invoke, GetItem (resolve_key (cacheKey c)),
          GetItem (timeKey (resolve_key (cacheKey c))),
          Emit (CacheHit (cachedValue_of cfg c s))]\<rparr>\<rparr>"
proof -
  have "\<not> js_ge (cachedAge_of num cfg c s) (minTimeToStale cfg)"
    using assms(2) by (rule js_gt_not_ge)
  moreover have "\<not> js_gt (cachedAge_of num cfg c s) (maxTimeToLive cfg)"
    using assms(2,3) by (rule js_gt_ge_trans)
  ultimately show ?thesis
    using assms(1) by (simp add: swr_defs)
qed

section \<open>The claims\<close>

subsection \<open>C1: the writes of the miss path\<close>

text \<open>
  C1, as stated: on the cache-miss path, when the call resolves, both storage writes have
  been awaited, so the serialized result is stored under the key and the timestamp under
  the time key before the returned promise settles. This fails for a storage whose
  \<open>setItem\<close> completes asynchronously: the promise settles with the producer's result
  while the storage still answers \<open>null\<close> for both keys.
\<close>

theorem C1_counterexample:
  "result (staleWhileRevalidate decimalNumber deferredStore
      (call_at (Resolves (JStr ''v1'')) 1000000) []) = Fulfilled (JStr ''v1'')
   \<and> getItem deferredStore (store (at_settle (staleWhileRevalidate decimalNumber deferredStore
      (call_at (Resolves (JStr ''v1'')) 1000000) []))) ''k'' = RNull
   \<and> getItem deferredStore (store (at_settle (staleWhileRevalidate decimalNumber deferredStore
      (call_at (Resolves (JStr ''v1'')) 1000000) []))) ''k_time'' = RNull"
  by (simp add: swr_defs host_defs)

text \<open>
  C1, amended: on the cache-miss path (value expired, absent or falsy) with a producer
  that resolves, the call resolves with the producer's result and, before its promise
  settles, both \<open>setItem\<close> calls have been issued, the serialized result under the key
  first and the timestamp string under the time key second, without being awaited. With
  a storage that writes during the call both are stored when the promise settles; with a
  storage that completes writes later both are still in flight at that moment and are
  stored once they land.
\<close>

theorem C1_miss_writes_issued_not_awaited:
  fixes num cfg c s
  defines "out \<equiv> staleWhileRevalidate num cfg c s"
      and "key \<equiv> resolve_key (cacheKey c)"
  assumes miss: "js_gt (cachedAge_of num cfg c s) (maxTimeToLive cfg)
                 \<or> \<not> truthy (cachedValue_of cfg c s)"
      and ok: "fn c = Resolves r"
  shows "result out = Fulfilled r
       \<and> writes (trace (at_settle out)) =
           [(key, serialize cfg r), (timeKey key, toString (now_write c))]
       \<and> (if deferred cfg
          then store (at_settle out) = s
             \<and> inflight (at_settle out) =
                 [(key, serialize cfg r), (timeKey key, toString (now_write c))]
          else store (at_settle out) =
                 setItem cfg (timeKey key) (toString (now_write c))
                   (setItem cfg key (serialize cfg r) s)
             \<and> inflight (at_settle out) = [])
       \<and> store (final out) =
           setItem cfg (timeKey key) (toString (now_write c))
             (setItem cfg key (serialize cfg r) s)
       \<and> inflight (final out) = []"
  using miss ok unfolding out_def key_def by (auto simp: swr_defs)

theorem C1_witness:
  "fn (call_at (Resolves (JStr ''v1'')) 1000000) = Resolves (JStr ''v1'')
   \<and> \<not> truthy (cachedValue_of directStore (call_at (Resolves (JStr ''v1'')) 1000000) [])
   \<and> store (at_settle (staleWhileRevalidate decimalNumber directStore
        (call_at (Resolves (JStr ''v1'')) 1000000) []))
      = [(''k_time'', ''1000001''), (''k'', ''v1'')]"
proof -
  have h1: "js_gt (cachedAge_of decimalNumber directStore
                     (call_at (Resolves (JStr ''v1'')) 1000000) [])
              (maxTimeToLive directStore)
            \<or> \<not> truthy (cachedValue_of directStore (call_at (Resolves (JStr ''v1'')) 1000000) [])"
    by (simp add: host_defs)
  have h2: "fn (call_at (Resolves (JStr ''v1'')) 1000000) = Resolves (JStr ''v1'')"
    by (simp add: call_at_def)
  show ?thesis
    using C1_miss_writes_issued_not_awaited [OF h1 h2] h2 toString_example
    by (simp add: host_defs)
qed

subsection \<open>C2: a timestamp that is absent or not a number\<close>

text \<open>
  C2, as stated: when the stored timestamp is absent or does not parse to a number and
  the stored value is present, the call takes the miss path (producer invoked and
  awaited) and never the stale-background path. This fails: with the timestamp
  \<open>''abc''\<close> and the value \<open>''v1''\<close> the age is NaN, the call is a plain cache hit and
  the producer is never called.
\<close>

theorem C2_counterexample:
  "Number_js decimalNumber (cachedTime_of directStore (call_at (Resolves (JStr ''v2'')) 1000000)
      [(''k'', ''v1''), (''k_time'', ''abc'')]) = NaN
   \<and> truthy (cachedValue_of directStore (call_at (Resolves (JStr ''v2'')) 1000000)
      [(''k'', ''v1''), (''k_time'', ''abc'')])
   \<and> trace (final (staleWhileRevalidate decimalNumber directStore
        (call_at (Resolves (JStr ''v2'')) 1000000) [(''k'', ''v1''), (''k_time'', ''abc'')]))
      = [Emit Invoke, GetItem ''k'', GetItem ''k_time'', Emit (CacheHit (JStr ''v1''))]"
  by (simp add: swr_defs host_defs)

text \<open>
  C2, amended: when the stored value is truthy and the stored timestamp is absent
  (answered as \<open>null\<close> or \<open>undefined\<close>) or a string that \<open>Number\<close> converts to NaN,
  the path depends on what \<open>Number(cachedTime)\<close> is.
  \<^item> It is NaN (\<open>undefined\<close>, or such a string): the age is NaN, both comparisons are
    false and the call is a plain hit. It emits invoke and cacheHit, resolves with the
    cached value, never calls the producer, starts no revalidation and writes nothing.
  \<^item> The timestamp is \<open>null\<close>: \<open>Number(null)\<close> is 0 and the age is the clock reading
    \<open>now\<close>. If \<open>now > maxTimeToLive\<close> the call emits cacheExpired and takes the miss
    path (producer called and awaited, its outcome is the outcome of the call). If
    \<open>minTimeToStale \<le> now \<le> maxTimeToLive\<close> it takes the stale-background path: it
    resolves with the cached value and starts a revalidation that it does not await. If
    \<open>now < minTimeToStale\<close> and \<open>now \<le> maxTimeToLive\<close> it is a plain hit.
\<close>

theorem C2_missing_or_nan_timestamp:
  fixes num cfg c s
  defines "out \<equiv> staleWhileRevalidate num cfg c s"
      and "key \<equiv> resolve_key (cacheKey c)"
      and "v \<equiv> cachedValue_of cfg c s"
      and "t \<equiv> cachedTime_of cfg c s"
      and "now \<equiv> Fin (now_read c)"
  assumes bad: "t = RNull \<or> Number_js num t = NaN"
      and present: "truthy v"
  shows "cachedAge_of num cfg c s = (if t = RNull then now else NaN)
       \<and> (Number_js num t = NaN
            \<or> (t = RNull \<and> \<not> js_gt now (maxTimeToLive cfg) \<and> \<not> js_ge now (minTimeToStale cfg))
          \<longrightarrow> result out = Fulfilled v
            \<and> trace (final out) =
                [Emit Invoke, GetItem key, GetItem (timeKey key), Emit (CacheHit v)]
            \<and> trace (at_settle out) = trace (final out)
            \<and> detached out = None
            \<and> store (final out) = s)
       \<and> (t = RNull \<and> js_gt now (maxTimeToLive cfg)
          \<longrightarrow> events (trace (at_settle out)) =
                [Invoke, CacheExpired now RNull v (maxTimeToLive cfg), CacheMiss, Revalidate]
                @ failure_events (fn c)
            \<and> fn_calls (trace (at_settle out)) = 1
            \<and> trace (final out) = trace (at_settle out)
            \<and> detached out = None
            \<and> result out = settles (fn c))
       \<and> (t = RNull \<and> \<not> js_gt now (maxTimeToLive cfg) \<and> js_ge now (minTimeToStale cfg)
          \<longrightarrow> result out = Fulfilled v
            \<and> events (trace (final out)) =
                [Invoke, CacheHit v, Revalidate] @ failure_events (fn c)
            \<and> writes (trace (at_settle out)) = []
            \<and> fn_calls (trace (final out)) = 1
            \<and> detached out = Some (settles (fn c), True))"
proof -
  have age: "cachedAge_of num cfg c s = (if t = RNull then now else NaN)"
    using bad unfolding t_def now_def by (auto simp: cachedAge_of_def)
  show ?thesis
  proof (cases "t = RNull")
    case True
    then have a: "cachedAge_of num cfg c s = Fin (now_read c)"
      using age by (simp add: now_def)
    have n: "Number_js num t \<noteq> NaN"
      using True by simp
    show ?thesis
      using True present a n unfolding out_def key_def v_def now_def
      by (cases "fn c")
         (simp_all add: swr_defs failure_events_def settles_def t_def [symmetric])
  next
    case False
    then have a: "cachedAge_of num cfg c s = NaN"
      using age by simp
    show ?thesis
      using False present a unfolding out_def key_def v_def now_def
      by (simp add: swr_defs t_def [symmetric])
  qed
qed

theorem C2_witness:
  "cachedTime_of unboundedStore (call_at (Resolves (JStr ''v2'')) 1000000) [(''k'', ''v1'')] = RNull
   \<and> truthy (cachedValue_of unboundedStore (call_at (Resolves (JStr ''v2'')) 1000000)
        [(''k'', ''v1'')])
   \<and> cachedAge_of decimalNumber unboundedStore (call_at (Resolves (JStr ''v2'')) 1000000)
        [(''k'', ''v1'')] = Fin 1000000
   \<and> result (staleWhileRevalidate decimalNumber unboundedStore
        (call_at (Resolves (JStr ''v2'')) 1000000) [(''k'', ''v1'')]) = Fulfilled (JStr ''v1'')
   \<and> events (trace (final (staleWhileRevalidate decimalNumber unboundedStore
        (call_at (Resolves (JStr ''v2'')) 1000000) [(''k'', ''v1'')])))
      = [Invoke, CacheHit (JStr ''v1''), Revalidate]
   \<and> detached (staleWhileRevalidate decimalNumber unboundedStore
        (call_at (Resolves (JStr ''v2'')) 1000000) [(''k'', ''v1'')])
      = Some (Fulfilled (JStr ''v2''), True)"
proof -
  have t: "cachedTime_of unboundedStore (call_at (Resolves (JStr ''v2'')) 1000000)
             [(''k'', ''v1'')] = RNull"
    by (simp add: unboundedStore_def host_defs)
  have v: "cachedValue_of unboundedStore (call_at (Resolves (JStr ''v2'')) 1000000)
             [(''k'', ''v1'')] = JStr ''v1''"
    by (simp add: unboundedStore_def host_defs)
  have h1: "cachedTime_of unboundedStore (call_at (Resolves (JStr ''v2'')) 1000000)
              [(''k'', ''v1'')] = RNull
            \<or> Number_js decimalNumber (cachedTime_of unboundedStore
                 (call_at (Resolves (JStr ''v2'')) 1000000) [(''k'', ''v1'')]) = NaN"
    by (simp add: t)
  have h2: "truthy (cachedValue_of unboundedStore (call_at (Resolves (JStr ''v2'')) 1000000)
              [(''k'', ''v1'')])"
    by (simp add: v)
  have f: "fn (call_at (Resolves (JStr ''v2'')) 1000000) = Resolves (JStr ''v2'')"
    "now_read (call_at (Resolves (JStr ''v2'')) 1000000) = 1000000"
    by (simp_all add: call_at_def)
  have m: "maxTimeToLive unboundedStore = PosInf" "minTimeToStale unboundedStore = Fin 1000"
    by (simp_all add: unboundedStore_def listStorage_def)
  show ?thesis
    using C2_missing_or_nan_timestamp [OF h1 h2]
    by (simp add: t v f m failure_events_def settles_def)
qed

subsection \<open>C3: a key with no entry\<close>

text \<open>
  C3, as stated: for a key with no entry (the storage answers absent for the key and for
  its time key) and a producer that succeeds, the call emits exactly invoke, cacheMiss,
  revalidate. This fails for a storage that answers \<open>null\<close>: \<open>Number(null)\<close> is 0, the
  age is the clock reading, and with \<open>maxTimeToLive = 5000\<close> a cacheExpired event is
  emitted between invoke and cacheMiss.
\<close>

theorem C3_counterexample:
  "getItem directStore [] ''k'' = RNull \<and> getItem directStore [] ''k_time'' = RNull
   \<and> events (trace (final (staleWhileRevalidate decimalNumber directStore
        (call_at (Resolves (JStr ''v1'')) 1000000) [])))
      = [Invoke, CacheExpired (Fin 1000000) RNull JNull (Fin 5000), CacheMiss, Revalidate]"
  by (simp add: swr_defs host_defs)

text \<open>
  C3, amended: for a key with no entry (the storage answers \<open>null\<close> or \<open>undefined\<close> for
  the key and for its time key, and the absent value deserializes to a falsy value) and
  a producer that resolves, the call emits invoke, cacheMiss, revalidate in that order,
  resolves with the producer's result and issues the write of the serialized value and
  then of the timestamp, which both reach the storage. One more event, cacheExpired, is
  emitted between invoke and cacheMiss exactly when the missing timestamp is answered as
  \<open>null\<close> and the clock reading exceeds \<open>maxTimeToLive\<close>.
\<close>

theorem C3_no_entry:
  fixes num cfg c s
  defines "out \<equiv> staleWhileRevalidate num cfg c s"
      and "key \<equiv> resolve_key (cacheKey c)"
  assumes no_value: "getItem cfg s key = RNull \<or> getItem cfg s key = RUndefined"
      and no_time: "getItem cfg s (timeKey key) = RNull \<or> getItem cfg s (timeKey key) = RUndefined"
      and codec: "\<not> truthy (deserialize cfg (getItem cfg s key))"
      and ok: "fn c = Resolves r"
  shows "events (trace (final out)) =
           Invoke #
           (if getItem cfg s (timeKey key) = RNull \<and> js_gt (Fin (now_read c)) (maxTimeToLive cfg)
            then [CacheExpired (Fin (now_read c)) RNull (cachedValue_of cfg c s) (maxTimeToLive cfg)]
            else [])
           @ [CacheMiss, Revalidate]
       \<and> trace (at_settle out) = trace (final out)
       \<and> result out = Fulfilled r
       \<and> writes (trace (final out)) =
           [(key, serialize cfg r), (timeKey key, toString (now_write c))]
       \<and> store (final out) =
           setItem cfg (timeKey key) (toString (now_write c))
             (setItem cfg key (serialize cfg r) s)"
  using no_time codec ok unfolding out_def key_def
  by (auto simp: swr_defs cachedAge_of_def cachedTime_of_def cachedValue_of_def)

theorem C3_witness:
  "getItem directStore [] ''k'' = RNull \<and> getItem directStore [] ''k_time'' = RNull
   \<and> result (staleWhileRevalidate decimalNumber directStore
        (call_at (Resolves (JStr ''v1'')) 1000000) []) = Fulfilled (JStr ''v1'')
   \<and> store (final (staleWhileRevalidate decimalNumber directStore
        (call_at (Resolves (JStr ''v1'')) 1000000) []))
      = [(''k_time'', ''1000001''), (''k'', ''v1'')]"
proof -
  have k: "resolve_key (cacheKey (call_at (Resolves (JStr ''v1'')) 1000000)) = ''k''"
    by (simp add: call_at_def)
  have h1: "getItem directStore [] (resolve_key (cacheKey (call_at (Resolves (JStr ''v1'')) 1000000)))
              = RNull
            \<or> getItem directStore [] (resolve_key (cacheKey (call_at (Resolves (JStr ''v1'')) 1000000)))
              = RUndefined"
    by (simp add: host_defs)
  have h2: "getItem directStore []
              (timeKey (resolve_key (cacheKey (call_at (Resolves (JStr ''v1'')) 1000000)))) = RNull
            \<or> getItem directStore []
              (timeKey (resolve_key (cacheKey (call_at (Resolves (JStr ''v1'')) 1000000)))) = RUndefined"
    by (simp add: host_defs)
  have h3: "\<not> truthy (deserialize directStore (getItem directStore []
              (resolve_key (cacheKey (call_at (Resolves (JStr ''v1'')) 1000000)))))"
    by (simp add: host_defs)
  have h4: "fn (call_at (Resolves (JStr ''v1'')) 1000000) = Resolves (JStr ''v1'')"
    by (simp add: call_at_def)
  show ?thesis
    using C3_no_entry [OF h1 h2 h3 h4] toString_example
    by (simp add: host_defs)
qed

subsection \<open>C4: a fresh entry\<close>

text \<open>
  C4: for a key holding a truthy cached value of age \<open>a\<close> with
  \<open>a < minTimeToStale \<le> maxTimeToLive\<close>, the call emits invoke then cacheHit, resolves
  with the deserialized cached value, never calls the producer and writes nothing; hence
  any sequence of calls that each find the entry fresh leaves the storage unchanged.
  Stated for a list of calls made one after the other; a single call is the list of
  length one.
\<close>

theorem C4_fresh_hits_leave_storage_unchanged:
  fixes num cfg cs s
  defines "outs \<equiv> get_all num cfg cs s"
  assumes fresh: "\<forall>c \<in> set cs. truthy (cachedValue_of cfg c s)
                    \<and> js_gt (minTimeToStale cfg) (cachedAge_of num cfg c s)"
      and order: "js_ge (maxTimeToLive cfg) (minTimeToStale cfg)"
  shows "map (\<lambda>out. (result out, trace (final out), detached out, store (final out))) outs =
           map (\<lambda>c. (Fulfilled (cachedValue_of cfg c s),
                      [Emit Invoke, GetItem (resolve_key (cacheKey c)),
                       GetItem (timeKey (resolve_key (cacheKey c))),
                       Emit (CacheHit (cachedValue_of cfg c s))],
                      None, s)) cs
       \<and> (\<forall>out \<in> set outs. fn_calls (trace (final out)) = 0 \<and> writes (trace (final out)) = [])
       \<and> store_after s outs = s"
  using fresh unfolding outs_def
proof (induction cs)
  case Nil
  show ?case by simp
next
  case (Cons c cs)
  have c: "truthy (cachedValue_of cfg c s)"
    "js_gt (minTimeToStale cfg) (cachedAge_of num cfg c s)"
    using Cons.prems by simp_all
  note p = fresh_path [OF c order]
  have rest: "\<forall>c \<in> set cs. truthy (cachedValue_of cfg c s)
                    \<and> js_gt (minTimeToStale cfg) (cachedAge_of num cfg c s)"
    using Cons.prems by simp
  show ?case
    using Cons.IH [OF rest] by (simp add: p Let_def)
qed

theorem C4_witness:
  "js_ge (maxTimeToLive directStore) (minTimeToStale directStore)
   \<and> map result (get_all decimalNumber directStore
        [call_at (Resolves (JStr ''v2'')) 1000000, call_at (Rejects (JStr ''boom'')) 1000200]
        [(''k'', ''v1''), (''k_time'', ''999500'')])
      = [Fulfilled (JStr ''v1''), Fulfilled (JStr ''v1'')]
   \<and> store_after [(''k'', ''v1''), (''k_time'', ''999500'')]
        (get_all decimalNumber directStore
          [call_at (Resolves (JStr ''v2'')) 1000000, call_at (Rejects (JStr ''boom'')) 1000200]
          [(''k'', ''v1''), (''k_time'', ''999500'')])
      = [(''k'', ''v1''), (''k_time'', ''999500'')]"
proof -
  have h1: "\<forall>c \<in> set [call_at (Resolves (JStr ''v2'')) 1000000,
                        call_at (Rejects (JStr ''boom'')) 1000200].
              truthy (cachedValue_of directStore c [(''k'', ''v1''), (''k_time'', ''999500'')])
            \<and> js_gt (minTimeToStale directStore)
                (cachedAge_of decimalNumber directStore c [(''k'', ''v1''), (''k_time'', ''999500'')])"
    by (simp add: host_defs)
  have h2: "js_ge (maxTimeToLive directStore) (minTimeToStale directStore)"
    by (simp add: host_defs)
  have v: "\<And>f t. cachedValue_of directStore (call_at f t) [(''k'', ''v1''), (''k_time'', ''999500'')]
             = JStr ''v1''"
    by (simp add: host_defs)
  have "map (\<lambda>(a, b, c, d). a)
          (map (\<lambda>out. (result out, trace (final out), detached out, store (final out)))
            (get_all decimalNumber directStore
              [call_at (Resolves (JStr ''v2'')) 1000000, call_at (Rejects (JStr ''boom'')) 1000200]
              [(''k'', ''v1''), (''k_time'', ''999500'')]))
        = [Fulfilled (JStr ''v1''), Fulfilled (JStr ''v1'')]"
    using C4_fresh_hits_leave_storage_unchanged [OF h1 h2] by (simp add: v)
  then have r: "map result (get_all decimalNumber directStore
              [call_at (Resolves (JStr ''v2'')) 1000000, call_at (Rejects (JStr ''boom'')) 1000200]
              [(''k'', ''v1''), (''k_time'', ''999500'')])
        = [Fulfilled (JStr ''v1''), Fulfilled (JStr ''v1'')]"
    by (simp add: comp_def)
  show ?thesis
    using C4_fresh_hits_leave_storage_unchanged [OF h1 h2] h2 r by simp
qed

subsection \<open>C5: a stale entry\<close>

text \<open>
  C5: for a key holding a truthy cached value of age \<open>a\<close> with
  \<open>minTimeToStale \<le> a \<le> maxTimeToLive\<close> (both bounds inclusive), the call emits invoke
  and cacheHit and resolves with the cached value without waiting for the revalidation:
  when its promise settles nothing has been written. The revalidation started in the
  background calls the producer exactly once and, when the producer resolves, writes the
  serialized value and then the timestamp to the storage.
\<close>

theorem C5_stale_hit_revalidates_in_background:
  fixes num cfg c s
  defines "out \<equiv> staleWhileRevalidate num cfg c s"
      and "key \<equiv> resolve_key (cacheKey c)"
      and "v \<equiv> cachedValue_of cfg c s"
  assumes present: "truthy v"
      and stale: "js_ge (cachedAge_of num cfg c s) (minTimeToStale cfg)"
      and live: "js_ge (maxTimeToLive cfg) (cachedAge_of num cfg c s)"
  shows "result out = Fulfilled v
       \<and> take 2 (events (trace (at_settle out))) = [Invoke, CacheHit v]
       \<and> events (trace (final out)) = [Invoke, CacheHit v, Revalidate] @ failure_events (fn c)
       \<and> writes (trace (at_settle out)) = []
       \<and> store (at_settle out) = s \<and> inflight (at_settle out) = []
       \<and> fn_calls (trace (final out)) = 1
       \<and> (\<forall>r. fn c = Resolves r \<longrightarrow>
             detached out = Some (Fulfilled r, True)
           \<and> writes (trace (final out)) =
               [(key, serialize cfg r), (timeKey key, toString (now_write c))]
           \<and> store (final out) =
               setItem cfg (timeKey key) (toString (now_write c))
                 (setItem cfg key (serialize cfg r) s))"
proof -
  have "\<not> js_gt (cachedAge_of num cfg c s) (maxTimeToLive cfg)"
    using live by (rule js_ge_not_gt)
  then show ?thesis
    using present stale unfolding out_def key_def v_def
    by (cases "fn c") (simp_all add: swr_defs failure_events_def)
qed

theorem C5_witness:
  "cachedAge_of decimalNumber deferredStore (call_at (Resolves (JStr ''v2'')) 1000000)
      [(''k'', ''v1''), (''k_time'', ''998000'')] = Fin 2000
   \<and> result (staleWhileRevalidate decimalNumber deferredStore
        (call_at (Resolves (JStr ''v2'')) 1000000) [(''k'', ''v1''), (''k_time'', ''998000'')])
      = Fulfilled (JStr ''v1'')
   \<and> store (at_settle (staleWhileRevalidate decimalNumber deferredStore
        (call_at (Resolves (JStr ''v2'')) 1000000) [(''k'', ''v1''), (''k_time'', ''998000'')]))
      = [(''k'', ''v1''), (''k_time'', ''998000'')]
   \<and> store (final (staleWhileRevalidate decimalNumber deferredStore
        (call_at (Resolves (JStr ''v2'')) 1000000) [(''k'', ''v1''), (''k_time'', ''998000'')]))
      = [(''k_time'', ''1000001''), (''k'', ''v2''), (''k'', ''v1''), (''k_time'', ''998000'')]"
proof -
  have a: "cachedAge_of decimalNumber deferredStore (call_at (Resolves (JStr ''v2'')) 1000000)
      [(''k'', ''v1''), (''k_time'', ''998000'')] = Fin 2000"
    by (simp add: host_defs)
  have v: "cachedValue_of deferredStore (call_at (Resolves (JStr ''v2'')) 1000000)
      [(''k'', ''v1''), (''k_time'', ''998000'')] = JStr ''v1''"
    by (simp add: host_defs)
  have h1: "truthy (cachedValue_of deferredStore (call_at (Resolves (JStr ''v2'')) 1000000)
      [(''k'', ''v1''), (''k_time'', ''998000'')])"
    by (simp add: v)
  have h2: "js_ge (cachedAge_of decimalNumber deferredStore (call_at (Resolves (JStr ''v2'')) 1000000)
      [(''k'', ''v1''), (''k_time'', ''998000'')]) (minTimeToStale deferredStore)"
    by (simp add: a) (simp add: host_defs)
  have h3: "js_ge (maxTimeToLive deferredStore)
      (cachedAge_of decimalNumber deferredStore (call_at (Resolves (JStr ''v2'')) 1000000)
      [(''k'', ''v1''), (''k_time'', ''998000'')])"
    by (simp add: a) (simp add: host_defs)
  have f: "fn (call_at (Resolves (JStr ''v2'')) 1000000) = Resolves (JStr ''v2'')"
    "resolve_key (cacheKey (call_at (Resolves (JStr ''v2'')) 1000000)) = ''k''"
    "now_write (call_at (Resolves (JStr ''v2'')) 1000000) = 1000001"
    by (simp_all add: call_at_def)
  have g: "setItem deferredStore = (\<lambda>k v s. (k, v) # s)"
    "serialize deferredStore (JStr ''v2'') = ''v2''"
    by (simp_all add: host_defs)
  show ?thesis
    using C5_stale_hit_revalidates_in_background [OF h1 h2 h3] a toString_example
    by (simp add: v f g timeKey_def)
qed

subsection \<open>C6: an expired entry\<close>

text \<open>
  C6: for a key holding a cached value of age \<open>a > maxTimeToLive\<close>, the call emits invoke,
  cacheExpired, cacheMiss, revalidate in that order (followed by revalidateFailed when
  the producer fails), discards the cached value and from there behaves as a call on a
  key with no entry: the revalidation is awaited and its outcome is the outcome of the
  call. Compared with the same call on any storage \<open>s0\<close> that has no (truthy) value
  under the key: same outcome, same writes, same events apart from cacheExpired.
\<close>

theorem C6_expired_behaves_as_no_entry:
  fixes num cfg c s s0
  defines "out \<equiv> staleWhileRevalidate num cfg c s"
      and "out0 \<equiv> staleWhileRevalidate num cfg c s0"
  assumes expired: "js_gt (cachedAge_of num cfg c s) (maxTimeToLive cfg)"
      and no_entry: "\<not> truthy (cachedValue_of cfg c s0)"
  shows "events (trace (final out)) =
           [Invoke,
            CacheExpired (cachedAge_of num cfg c s) (cachedTime_of cfg c s)
              (cachedValue_of cfg c s) (maxTimeToLive cfg),
            CacheMiss, Revalidate] @ failure_events (fn c)
       \<and> trace (at_settle out) = trace (final out)
       \<and> result out = settles (fn c)
       \<and> detached out = None
       \<and> result out = result out0
       \<and> detached out = detached out0
       \<and> writes (trace (final out)) = writes (trace (final out0))
       \<and> filter (\<lambda>e. \<not> is_expired_event e) (events (trace (final out))) =
           filter (\<lambda>e. \<not> is_expired_event e) (events (trace (final out0)))"
  using expired no_entry unfolding out_def out0_def
  by (cases "fn c") (simp_all add: swr_defs failure_events_def settles_def)

theorem C6_witness:
  "cachedAge_of decimalNumber directStore (call_at (Resolves (JStr ''v2'')) 1000000)
      [(''k'', ''v1''), (''k_time'', ''990000'')] = Fin 10000
   \<and> events (trace (final (staleWhileRevalidate decimalNumber directStore
        (call_at (Resolves (JStr ''v2'')) 1000000) [(''k'', ''v1''), (''k_time'', ''990000'')])))
      = [Invoke, CacheExpired (Fin 10000) (RStr ''990000'') (JStr ''v1'') (Fin 5000),
         CacheMiss, Revalidate]
   \<and> result (staleWhileRevalidate decimalNumber directStore
        (call_at (Resolves (JStr ''v2'')) 1000000) [(''k'', ''v1''), (''k_time'', ''990000'')])
      = Fulfilled (JStr ''v2'')"
proof -
  have a: "cachedAge_of decimalNumber directStore (call_at (Resolves (JStr ''v2'')) 1000000)
      [(''k'', ''v1''), (''k_time'', ''990000'')] = Fin 10000"
    by (simp add: host_defs)
  have t: "cachedTime_of directStore (call_at (Resolves (JStr ''v2'')) 1000000)
      [(''k'', ''v1''), (''k_time'', ''990000'')] = RStr ''990000''"
    by (simp add: host_defs)
  have v: "cachedValue_of directStore (call_at (Resolves (JStr ''v2'')) 1000000)
      [(''k'', ''v1''), (''k_time'', ''990000'')] = JStr ''v1''"
    by (simp add: host_defs)
  have m: "maxTimeToLive directStore = Fin 5000"
    by (simp add: host_defs)
  have h1: "js_gt (cachedAge_of decimalNumber directStore (call_at (Resolves (JStr ''v2'')) 1000000)
      [(''k'', ''v1''), (''k_time'', ''990000'')]) (maxTimeToLive directStore)"
    by (simp add: a m)
  have h2: "\<not> truthy (cachedValue_of directStore (call_at (Resolves (JStr ''v2'')) 1000000) [])"
    by (simp add: host_defs)
  have f: "fn (call_at (Resolves (JStr ''v2'')) 1000000) = Resolves (JStr ''v2'')"
    by (simp add: call_at_def)
  show ?thesis
    using C6_expired_behaves_as_no_entry [OF h1 h2]
    by (simp add: a t v m f failure_events_def settles_def)
qed

subsection \<open>C7: the producer fails on the miss path\<close>

text \<open>
  C7: if the producer throws or rejects on the cache-miss path, the call rejects with
  exactly that error, revalidateFailed is emitted with the error attached, and no
  storage write occurs: the storage is the one the call started with.
\<close>

theorem C7_miss_failure_rejects_and_writes_nothing:
  fixes num cfg c s
  defines "out \<equiv> staleWhileRevalidate num cfg c s"
  assumes miss: "js_gt (cachedAge_of num cfg c s) (maxTimeToLive cfg)
                 \<or> \<not> truthy (cachedValue_of cfg c s)"
      and fail: "fn c = Rejects e \<or> fn c = Throws e"
  shows "result out = Rejected e
       \<and> events (trace (at_settle out)) =
           Invoke # (if js_gt (cachedAge_of num cfg c s) (maxTimeToLive cfg)
                     then [CacheExpired (cachedAge_of num cfg c s) (cachedTime_of cfg c s)
                             (cachedValue_of cfg c s) (maxTimeToLive cfg)] else [])
             @ [CacheMiss, Revalidate, RevalidateFailed e]
       \<and> trace (final out) = trace (at_settle out)
       \<and> writes (trace (final out)) = []
       \<and> store (at_settle out) = s \<and> inflight (at_settle out) = []
       \<and> store (final out) = s \<and> inflight (final out) = []"
  using miss fail unfolding out_def by (auto simp: swr_defs)

theorem C7_witness:
  "fn (call_at (Rejects (JStr ''boom'')) 1000000) = Rejects (JStr ''boom'')
   \<and> result (staleWhileRevalidate decimalNumber directStore
        (call_at (Rejects (JStr ''boom'')) 1000000) []) = Rejected (JStr ''boom'')
   \<and> store (final (staleWhileRevalidate decimalNumber directStore
        (call_at (Rejects (JStr ''boom'')) 1000000) [])) = []"
proof -
  have h1: "js_gt (cachedAge_of decimalNumber directStore
                     (call_at (Rejects (JStr ''boom'')) 1000000) [])
              (maxTimeToLive directStore)
            \<or> \<not> truthy (cachedValue_of directStore (call_at (Rejects (JStr ''boom'')) 1000000) [])"
    by (simp add: host_defs)
  have h2: "fn (call_at (Rejects (JStr ''boom'')) 1000000) = Rejects (JStr ''boom'')
            \<or> fn (call_at (Rejects (JStr ''boom'')) 1000000) = Throws (JStr ''boom'')"
    by (simp add: call_at_def)
  have f: "fn (call_at (Rejects (JStr ''boom'')) 1000000) = Rejects (JStr ''boom'')"
    by (simp add: call_at_def)
  show ?thesis
    using C7_miss_failure_rejects_and_writes_nothing [OF h1 h2] f by simp
qed

subsection \<open>C8: the producer fails on the stale path\<close>

text \<open>
  C8: if the producer throws or rejects on the stale (background) path, the call still
  resolves with the cached stale value, revalidateFailed is emitted with the error
  attached, and the rejection of the background revalidation reaches neither the caller
  nor the host as an unhandled rejection: the rejected promise has a handler attached.
\<close>

theorem C8_stale_failure_is_absorbed:
  fixes num cfg c s
  defines "out \<equiv> staleWhileRevalidate num cfg c s"
      and "v \<equiv> cachedValue_of cfg c s"
  assumes present: "truthy v"
      and stale: "js_ge (cachedAge_of num cfg c s) (minTimeToStale cfg)"
      and live: "js_ge (maxTimeToLive cfg) (cachedAge_of num cfg c s)"
      and fail: "fn c = Rejects e \<or> fn c = Throws e"
  shows "result out = Fulfilled v
       \<and> events (trace (final out)) = [Invoke, CacheHit v, Revalidate, RevalidateFailed e]
       \<and> detached out = Some (Rejected e, True)
       \<and> unhandled_rejection out = None
       \<and> writes (trace (final out)) = []
       \<and> store (final out) = s"
proof -
  have "\<not> js_gt (cachedAge_of num cfg c s) (maxTimeToLive cfg)"
    using live by (rule js_ge_not_gt)
  then show ?thesis
    using present stale fail unfolding out_def v_def
    by (auto simp: swr_defs unhandled_rejection_def)
qed

theorem C8_witness:
  "cachedAge_of decimalNumber directStore (call_at (Throws (JStr ''boom'')) 1000000)
      [(''k'', ''v1''), (''k_time'', ''998000'')] = Fin 2000
   \<and> result (staleWhileRevalidate decimalNumber directStore
        (call_at (Throws (JStr ''boom'')) 1000000) [(''k'', ''v1''), (''k_time'', ''998000'')])
      = Fulfilled (JStr ''v1'')
   \<and> events (trace (final (staleWhileRevalidate decimalNumber directStore
        (call_at (Throws (JStr ''boom'')) 1000000) [(''k'', ''v1''), (''k_time'', ''998000'')])))
      = [Invoke, CacheHit (JStr ''v1''), Revalidate, RevalidateFailed (JStr ''boom'')]"
proof -
  have a: "cachedAge_of decimalNumber directStore (call_at (Throws (JStr ''boom'')) 1000000)
      [(''k'', ''v1''), (''k_time'', ''998000'')] = Fin 2000"
    by (simp add: host_defs)
  have v: "cachedValue_of directStore (call_at (Throws (JStr ''boom'')) 1000000)
      [(''k'', ''v1''), (''k_time'', ''998000'')] = JStr ''v1''"
    by (simp add: host_defs)
  have h1: "truthy (cachedValue_of directStore (call_at (Throws (JStr ''boom'')) 1000000)
      [(''k'', ''v1''), (''k_time'', ''998000'')])"
    by (simp add: v)
  have h2: "js_ge (cachedAge_of decimalNumber directStore (call_at (Throws (JStr ''boom'')) 1000000)
      [(''k'', ''v1''), (''k_time'', ''998000'')]) (minTimeToStale directStore)"
    by (simp add: a) (simp add: host_defs)
  have h3: "js_ge (maxTimeToLive directStore)
      (cachedAge_of decimalNumber directStore (call_at (Throws (JStr ''boom'')) 1000000)
      [(''k'', ''v1''), (''k_time'', ''998000'')])"
    by (simp add: a) (simp add: host_defs)
  have h4: "fn (call_at (Throws (JStr ''boom'')) 1000000) = Rejects (JStr ''boom'')
            \<or> fn (call_at (Throws (JStr ''boom'')) 1000000) = Throws (JStr ''boom'')"
    by (simp add: call_at_def)
  show ?thesis
    using C8_stale_failure_is_absorbed [OF h1 h2 h3 h4] a by (simp add: v)
qed

subsection \<open>C9: a falsy cached value\<close>

text \<open>
  C9: when the stored value deserializes to a falsy value (numeric zero, the empty
  string) and the entry is not expired, the call is classified as if the entry were
  absent: cacheMiss is emitted, cacheHit is not, and the producer is called and awaited
  before the call settles with the producer's outcome.
\<close>

theorem C9_falsy_value_is_a_miss:
  fixes num cfg c s
  defines "out \<equiv> staleWhileRevalidate num cfg c s"
  assumes falsy: "\<not> truthy (cachedValue_of cfg c s)"
      and live: "\<not> js_gt (cachedAge_of num cfg c s) (maxTimeToLive cfg)"
  shows "events (trace (at_settle out)) = [Invoke, CacheMiss, Revalidate] @ failure_events (fn c)
       \<and> (\<forall>x. CacheHit x \<notin> set (events (trace (final out))))
       \<and> fn_calls (trace (at_settle out)) = 1
       \<and> trace (final out) = trace (at_settle out)
       \<and> detached out = None
       \<and> result out = settles (fn c)"
  using falsy live unfolding out_def
  by (cases "fn c") (simp_all add: swr_defs failure_events_def settles_def)

theorem C9_witness:
  "cachedValue_of directStore (call_at (Resolves (JStr ''v2'')) 1000000)
      [(''k'', ''''), (''k_time'', ''999500'')] = JStr ''''
   \<and> cachedAge_of decimalNumber directStore (call_at (Resolves (JStr ''v2'')) 1000000)
      [(''k'', ''''), (''k_time'', ''999500'')] = Fin 500
   \<and> events (trace (at_settle (staleWhileRevalidate decimalNumber directStore
        (call_at (Resolves (JStr ''v2'')) 1000000) [(''k'', ''''), (''k_time'', ''999500'')])))
      = [Invoke, CacheMiss, Revalidate]
   \<and> result (staleWhileRevalidate decimalNumber directStore
        (call_at (Resolves (JStr ''v2'')) 1000000) [(''k'', ''''), (''k_time'', ''999500'')])
      = Fulfilled (JStr ''v2'')"
proof -
  have v: "cachedValue_of directStore (call_at (Resolves (JStr ''v2'')) 1000000)
      [(''k'', ''''), (''k_time'', ''999500'')] = JStr ''''"
    by (simp add: host_defs)
  have a: "cachedAge_of decimalNumber directStore (call_at (Resolves (JStr ''v2'')) 1000000)
      [(''k'', ''''), (''k_time'', ''999500'')] = Fin 500"
    by (simp add: host_defs)
  have h1: "\<not> truthy (cachedValue_of directStore (call_at (Resolves (JStr ''v2'')) 1000000)
      [(''k'', ''''), (''k_time'', ''999500'')])"
    by (simp add: v)
  have h2: "\<not> js_gt (cachedAge_of decimalNumber directStore (call_at (Resolves (JStr ''v2'')) 1000000)
      [(''k'', ''''), (''k_time'', ''999500'')]) (maxTimeToLive directStore)"
    by (simp add: a) (simp add: host_defs)
  have f: "fn (call_at (Resolves (JStr ''v2'')) 1000000) = Resolves (JStr ''v2'')"
    by (simp add: call_at_def)
  show ?thesis
    using C9_falsy_value_is_a_miss [OF h1 h2] v a
    by (simp add: f failure_events_def settles_def)
qed

subsection \<open>C10: what one call may write\<close>

text \<open>
  C10: one call with resolved key \<open>k\<close> writes nothing, or exactly the slot \<open>k\<close> and then
  the slot \<open>k_time\<close>, and the latter only for a producer that has resolved: no
  \<open>setItem\<close> precedes the call of the producer and no other slot is written. cacheHit
  and cacheMiss are never both emitted by the same call.
\<close>

theorem C10_write_frame:
  fixes num cfg c s
  defines "out \<equiv> staleWhileRevalidate num cfg c s"
      and "key \<equiv> resolve_key (cacheKey c)"
  shows "(writes (trace (final out)) = [] \<and> store (final out) = s
          \<or> (\<exists>r. fn c = Resolves r
                \<and> writes (trace (final out)) =
                    [(key, serialize cfg r), (timeKey key, toString (now_write c))]
                \<and> store (final out) =
                    setItem cfg (timeKey key) (toString (now_write c))
                      (setItem cfg key (serialize cfg r) s)))
       \<and> no_write_before_call (trace (final out))
       \<and> \<not> (CacheMiss \<in> set (events (trace (final out)))
            \<and> (\<exists>x. CacheHit x \<in> set (events (trace (final out)))))"
  unfolding out_def key_def
  by (cases "fn c") (simp_all add: swr_defs)

theorem C10_witness:
  "no_write_before_call (trace (final (staleWhileRevalidate decimalNumber deferredStore
      (call_at (Resolves (JStr ''v2'')) 1000000) [(''k'', ''v1''), (''k_time'', ''998000'')])))
   \<and> CacheMiss \<notin> set (events (trace (final (staleWhileRevalidate decimalNumber deferredStore
      (call_at (Resolves (JStr ''v2'')) 1000000) [(''k'', ''v1''), (''k_time'', ''998000'')]))))
   \<and> writes (trace (final (staleWhileRevalidate decimalNumber deferredStore
      (call_at (Resolves (JStr ''v2'')) 1000000) [(''k'', ''v1''), (''k_time'', ''998000'')])))
     = [(''k'', ''v2''), (''k_time'', ''1000001'')]"
proof -
  have e: "events (trace (final (staleWhileRevalidate decimalNumber deferredStore
      (call_at (Resolves (JStr ''v2'')) 1000000) [(''k'', ''v1''), (''k_time'', ''998000'')])))
     = [Invoke, CacheHit (JStr ''v1''), Revalidate]"
    by (simp add: swr_defs host_defs)
  have w: "writes (trace (final (staleWhileRevalidate decimalNumber deferredStore
      (call_at (Resolves (JStr ''v2'')) 1000000) [(''k'', ''v1''), (''k_time'', ''998000'')])))
     \<noteq> []"
    by (simp add: swr_defs host_defs)
  have f: "fn (call_at (Resolves (JStr ''v2'')) 1000000) = Resolves (JStr ''v2'')"
    "resolve_key (cacheKey (call_at (Resolves (JStr ''v2'')) 1000000)) = ''k''"
    "now_write (call_at (Resolves (JStr ''v2'')) 1000000) = 1000001"
    by (simp_all add: call_at_def)
  have g: "serialize deferredStore (JStr ''v2'') = ''v2''"
    by (simp add: host_defs)
  show ?thesis
    using C10_write_frame [of decimalNumber deferredStore
        "call_at (Resolves (JStr ''v2'')) 1000000" "[(''k'', ''v1''), (''k_time'', ''998000'')]"]
      w toString_example
    by (simp add: e f g timeKey_def)
qed

end
